theory Spec2Isabelle
  imports Main
begin

section \<open>The CoScale event state: a model of coscale.py\<close>

text \<open>
  The module posts three kinds of HTTP request (login, create event, push event data)
  and folds the outcome into the record a Salt state returns. The model keeps the
  source's functions and names. What the source takes from libraries is made explicit:
  \<^item> \<open>requests.post\<close> is a step on a \<open>world\<close>: the replies the network will give, in
    order, and the log of the requests made so far;
  \<^item> \<open>json.loads\<close> and \<open>repr\<close> of compound values are parameters (\<open>pylib\<close>);
  \<^item> an exception is the \<open>Inl\<close> branch of a sum.
\<close>

subsection \<open>Python values\<close>

text \<open>
  What \<open>json.loads\<close> can produce. JSON \<open>null\<close> is Python's \<open>None\<close>. A float is kept as
  the literal it was read from: the program never computes with it.
\<close>

datatype pyval =
    PyNone
  | PyBool bool
  | PyInt int
  | PyFloat string
  | PyStr string
  | PyList "pyval list"
  | PyDict "(string \<times> pyval) list"

datatype py_exn =
    AttributeError string
  | ValueError
  | KeyError string
  | TypeError
  | RequestException

record pylib =
  json_loads :: "string \<Rightarrow> pyval option"
  py_repr :: "pyval \<Rightarrow> string"

text \<open>\<open>response[key]\<close> with a string key: only a dict has one.\<close>

fun getitem :: "pyval \<Rightarrow> string \<Rightarrow> py_exn + pyval" where
  "getitem (PyDict kvs) k =
     (case map_of kvs k of None \<Rightarrow> Inl (KeyError k) | Some v \<Rightarrow> Inr v)"
| "getitem _ k = Inl TypeError"

text \<open>\<open>str(n)\<close> for an integer: its decimal digits.\<close>

fun digits :: "nat \<Rightarrow> string" where
  "digits n =
     (if n < 10 then [''0123456789'' ! n]
      else digits (n div 10) @ [''0123456789'' ! (n mod 10)])"

declare digits.simps [simp del]

definition str_int :: "int \<Rightarrow> string" where
  "str_int i = (if i < 0 then CHR ''-'' # digits (nat (- i)) else digits (nat i))"

text \<open>
  \<open>str(v)\<close>. For a float, a list or a dict it is \<open>repr(v)\<close>, which the library gives.
\<close>

fun py_str :: "pylib \<Rightarrow> pyval \<Rightarrow> string" where
  "py_str lib PyNone = ''None''"
| "py_str lib (PyBool b) = (if b then ''True'' else ''False'')"
| "py_str lib (PyInt i) = str_int i"
| "py_str lib (PyStr s) = s"
| "py_str lib v = py_repr lib v"

subsection \<open>HTTP\<close>

record request =
  url :: string
  data :: "(string \<times> pyval) list"
  headers :: "(string \<times> pyval) list"
  timeout :: int

record response =
  status_code :: int
  text' :: string

text \<open>
  One entry per request made: the server's response, or \<open>NoReply\<close> when
  \<open>requests.post\<close> raises instead (timeout, connection failure). When the list is used
  up nothing answers any more.
\<close>

datatype reply = Reply response | NoReply

record world =
  replies :: "reply list"
  sent :: "request list"

type_synonym 'a io = "world \<Rightarrow> (py_exn + 'a) \<times> world"

definition requests_post :: "request \<Rightarrow> response io" where
  "requests_post q w =
     ((case replies w of Reply r # _ \<Rightarrow> Inr r | _ \<Rightarrow> Inl RequestException),
      w\<lparr>replies := drop 1 (replies w), sent := sent w @ [q]\<rparr>)"

definition io_return :: "'a \<Rightarrow> 'a io" where
  "io_return x w = (Inr x, w)"

definition io_raise :: "py_exn \<Rightarrow> 'a io" where
  "io_raise e w = (Inl e, w)"

definition io_bind :: "'a io \<Rightarrow> ('a \<Rightarrow> 'b io) \<Rightarrow> 'b io" where
  "io_bind m f w = (case m w of (Inl e, w') \<Rightarrow> (Inl e, w') | (Inr x, w') \<Rightarrow> f x w')"

text \<open>\<open>try: m except AttributeError as err: h err\<close>; any other exception goes on.\<close>

definition except_AttributeError :: "'a io \<Rightarrow> (string \<Rightarrow> 'a io) \<Rightarrow> 'a io" where
  "except_AttributeError m h w =
     (case m w of
        (Inl (AttributeError msg), w') \<Rightarrow> h msg w'
      | (x, w') \<Rightarrow> (x, w'))"

subsection \<open>The three requests\<close>

definition login :: "pylib \<Rightarrow> string \<Rightarrow> string \<Rightarrow> pyval io" where
  "login lib accesstoken url' =
     (let data' = [(''accessToken'', PyStr accesstoken)] in
      io_bind (requests_post \<lparr>url = url', data = data', headers = [], timeout = 1\<rparr>) (\<lambda>req.
        if status_code req \<noteq> 200 then io_raise (AttributeError (text' req))
        else (case json_loads lib (text' req) of
                None \<Rightarrow> io_raise ValueError
              | Some response \<Rightarrow>
                  (case getitem response ''token'' of
                     Inl e \<Rightarrow> io_raise e
                   | Inr token \<Rightarrow> io_return token))))"

definition eventpush :: "pylib \<Rightarrow> string \<Rightarrow> pyval \<Rightarrow> string \<Rightarrow> (response option \<times> pyval) io" where
  "eventpush lib name' token url' =
     (let data' = [(''name'', PyStr name'),
                   (''description'', PyStr ''''),
                   (''type'', PyStr ''''),
                   (''source'', PyStr ''SaltStack'')];
          headers' = [(''HTTPAuthorization'', token)] in
      io_bind (requests_post \<lparr>url = url', data = data', headers = headers', timeout = 1\<rparr>) (\<lambda>req.
        if status_code req = 409 \<or> status_code req = 200 then
          (case json_loads lib (text' req) of
             None \<Rightarrow> io_raise ValueError
           | Some response \<Rightarrow>
               (case getitem response ''id'' of
                  Inl e \<Rightarrow> io_raise e
                | Inr event_id \<Rightarrow> io_return (None, event_id)))
        else io_return (Some req, PyNone)))"

definition eventdatapush :: "string \<Rightarrow> int \<Rightarrow> pyval \<Rightarrow> string \<Rightarrow> response option io" where
  "eventdatapush message timestamp token url' =
     (let data' = [(''message'', PyStr message),
                   (''timestamp'', PyInt timestamp),
                   (''subject'', PyStr ''a'')];
          headers' = [(''HTTPAuthorization'', token)] in
      io_bind (requests_post \<lparr>url = url', data = data', headers = headers', timeout = 1\<rparr>) (\<lambda>req.
        if status_code req \<noteq> 200 then io_return (Some req) else io_return None))"

subsection \<open>The state function\<close>

text \<open>
  The comment of the returned record is a string, or the caught \<open>AttributeError\<close>
  itself (with its message).
\<close>

datatype comment_val = Text string | Caught string

fun comment_str :: "comment_val \<Rightarrow> string" where
  "comment_str (Text s) = s"
| "comment_str (Caught msg) = msg"

record ret =
  name :: string
  changes :: "string \<rightharpoonup> pyval"
  result :: bool
  comment :: comment_val

text \<open>A keyword argument with a default: left out, or given.\<close>

datatype 'a kwarg = Omitted | Given 'a

text \<open>Inside the function body: \<open>return ret\<close>, or go on to the next statement.\<close>

datatype 'a flow = Return ret | Continue 'a

text \<open>
  Reading an attribute of \<open>err\<close> (\<open>err.status_code\<close>, \<open>err.text\<close>): \<open>None\<close> has
  none, and Python raises \<open>AttributeError\<close> with the message
  \<open>'NoneType' object has no attribute 'status_code'\<close>.
\<close>

definition no_attribute :: "string \<Rightarrow> string" where
  "no_attribute fname =
     [CHR 0x27] @ ''NoneType'' @ [CHR 0x27] @ '' object has no attribute '' @
     [CHR 0x27] @ fname @ [CHR 0x27]"

definition getattr_err :: "response option \<Rightarrow> (response \<Rightarrow> 'a) \<Rightarrow> string \<Rightarrow> 'a io" where
  "getattr_err err field fname =
     (case err of
        None \<Rightarrow> io_raise (AttributeError (no_attribute fname))
      | Some r \<Rightarrow> io_return (field r))"

text \<open>Lines 133 to 140: create the event, once more after a 401.\<close>

definition event_create ::
  "pylib \<Rightarrow> string \<Rightarrow> string \<Rightarrow> string \<Rightarrow> ret \<Rightarrow> pyval \<Rightarrow> (pyval \<times> pyval) flow io" where
  "event_create lib baseurl accesstoken event_name ret0 token =
     io_bind (eventpush lib event_name token (baseurl @ ''events/'')) (\<lambda>(err, event_id).
       if err \<noteq> None then
         io_bind (getattr_err err status_code ''status_code'') (\<lambda>sc.
         io_bind
           (if sc = 401 then
              io_bind (login lib accesstoken (baseurl @ ''login/'')) (\<lambda>token2.
              io_bind (eventpush lib event_name token2 (baseurl @ ''events/'')) (\<lambda>(err2, event_id2).
                io_return (token2, err2, event_id2)))
            else io_return (token, err, event_id)) (\<lambda>(token, err, event_id).
         io_bind (getattr_err err status_code ''status_code'') (\<lambda>sc.
           if Some sc \<notin> set [Some 401, None] then
             io_bind (getattr_err err text' ''text'') (\<lambda>body.
               io_return (Return (ret0\<lparr>comment := Text body\<rparr>)))
           else io_return (Continue (token, event_id)))))
       else io_return (Continue (token, event_id)))"

text \<open>Lines 141 to 149: push the event data, once more after a 401.\<close>

definition event_push ::
  "pylib \<Rightarrow> string \<Rightarrow> string \<Rightarrow> string \<Rightarrow> int \<Rightarrow> ret \<Rightarrow> pyval \<Rightarrow> pyval \<Rightarrow> unit flow io" where
  "event_push lib baseurl accesstoken event_message timestamp ret0 token event_id =
     (let url' = baseurl @ ''events/'' @ py_str lib event_id @ ''/data/'' in
      io_bind (eventdatapush event_message timestamp token url') (\<lambda>err.
        if err \<noteq> None then
          io_bind (getattr_err err status_code ''status_code'') (\<lambda>sc.
          io_bind
            (if sc = 401 then
               io_bind (login lib accesstoken (baseurl @ ''login/'')) (\<lambda>token2.
               io_bind (eventdatapush event_message timestamp token2 url') (\<lambda>err2.
                 io_return (token2, err2)))
             else io_return (token, err)) (\<lambda>(token, err).
          io_bind (getattr_err err status_code ''status_code'') (\<lambda>sc.
            if Some sc \<notin> set [Some 401, None] then
              io_bind (getattr_err err text' ''text'') (\<lambda>body.
               io_return (Return (ret0\<lparr>comment := Text body\<rparr>)))
            else io_return (Continue ()))))
        else io_return (Continue ())))"

text \<open>Lines 132 to 152: the body of the \<open>try\<close>.\<close>

definition event_try ::
  "pylib \<Rightarrow> string \<Rightarrow> string \<Rightarrow> string \<Rightarrow> string \<Rightarrow> int \<Rightarrow> ret \<Rightarrow> ret io" where
  "event_try lib baseurl accesstoken event_name event_message timestamp ret0 =
     io_bind (login lib accesstoken (baseurl @ ''login/'')) (\<lambda>token.
     io_bind (event_create lib baseurl accesstoken event_name ret0 token) (\<lambda>created.
       case created of
         Return r \<Rightarrow> io_return r
       | Continue (token, event_id) \<Rightarrow>
           io_bind (event_push lib baseurl accesstoken event_message timestamp ret0 token event_id)
             (\<lambda>pushed.
               case pushed of
                 Return r \<Rightarrow> io_return r
               | Continue _ \<Rightarrow>
                   io_return (ret0\<lparr>result := True,
                                   comment := Text (''Sent event: '' @ event_name)\<rparr>))))"

text \<open>Lines 92 to 155.\<close>

definition event ::
  "pylib \<Rightarrow> string \<Rightarrow> string \<Rightarrow> string \<Rightarrow> string \<Rightarrow> string \<Rightarrow> int kwarg \<Rightarrow> ret io" where
  "event lib baseurl accesstoken appid event_name event_message timestamp' =
     (let timestamp = (case timestamp' of Omitted \<Rightarrow> 0 | Given t \<Rightarrow> t);
          ret0 = \<lparr>name = event_name, changes = Map.empty, result = False, comment = Text ''''\<rparr>;
          baseurl = baseurl @ ''api/v1/app/'' @ appid @ ''/'' in
      except_AttributeError
        (event_try lib baseurl accesstoken event_name event_message timestamp ret0)
        (\<lambda>err. io_return (ret0\<lparr>comment := Caught err\<rparr>)))"

subsection \<open>The requests as they go over the wire\<close>

abbreviation login_request :: "string \<Rightarrow> string \<Rightarrow> request" where
  "login_request accesstoken u \<equiv>
     \<lparr>url = u, data = [(''accessToken'', PyStr accesstoken)], headers = [], timeout = 1\<rparr>"

abbreviation eventpush_request :: "string \<Rightarrow> pyval \<Rightarrow> string \<Rightarrow> request" where
  "eventpush_request name' token u \<equiv>
     \<lparr>url = u,
      data = [(''name'', PyStr name'), (''description'', PyStr ''''), (''type'', PyStr ''''),
              (''source'', PyStr ''SaltStack'')],
      headers = [(''HTTPAuthorization'', token)], timeout = 1\<rparr>"

abbreviation eventdatapush_request :: "string \<Rightarrow> int \<Rightarrow> pyval \<Rightarrow> string \<Rightarrow> request" where
  "eventdatapush_request message timestamp token u \<equiv>
     \<lparr>url = u,
      data = [(''message'', PyStr message), (''timestamp'', PyInt timestamp),
              (''subject'', PyStr ''a'')],
      headers = [(''HTTPAuthorization'', token)], timeout = 1\<rparr>"

subsection \<open>A concrete library and server for the examples\<close>

text \<open>\<open>json.loads\<close> on the three bodies the examples use; any other text is not JSON here.\<close>

definition example_lib :: pylib where
  \<open>example_lib =
     \<lparr>json_loads = map_of
        [(''{"token": "t1"}'', PyDict [(''token'', PyStr ''t1'')]),
         (''{"token": "t2"}'', PyDict [(''token'', PyStr ''t2'')]),
         (''{"id": 7}'', PyDict [(''id'', PyInt 7)])],
      py_repr = (\<lambda>v. '''')\<rparr>\<close>

definition example_event :: "reply list \<Rightarrow> (py_exn + ret) \<times> world" where
  "example_event rs =
     event example_lib ''https://api.coscale.com/'' ''42c59aad'' ''00006e0e''
       ''Software updates'' ''Updating to version 2.2'' Omitted \<lparr>replies = rs, sent = []\<rparr>"

subsection \<open>What a computation may send and return\<close>

text \<open>
  \<open>io_spec S P Q m\<close>: started in a world whose replies are all in \<open>S\<close>, the computation
  \<open>m\<close> leaves only replies of \<open>S\<close>, adds to the log only requests that satisfy \<open>P\<close>, and,
  when it returns a value, that value satisfies \<open>Q\<close>.
\<close>

definition io_spec :: "reply set \<Rightarrow> (request \<Rightarrow> bool) \<Rightarrow> ('a \<Rightarrow> bool) \<Rightarrow> 'a io \<Rightarrow> bool" where
  "io_spec S P Q m \<longleftrightarrow>
     (\<forall>w. set (replies w) \<subseteq> S \<longrightarrow>
        (case m w of (x, w') \<Rightarrow>
           set (replies w') \<subseteq> S \<and>
           (\<exists>qs. sent w' = sent w @ qs \<and> (\<forall>q\<in>set qs. P q)) \<and>
           (case x of Inl e \<Rightarrow> True | Inr v \<Rightarrow> Q v)))"

text \<open>The event id in hand: \<open>None\<close>, or the \<open>id\<close> member of a reply with status 409 or 200.\<close>

definition id_of :: "pylib \<Rightarrow> reply set \<Rightarrow> pyval \<Rightarrow> bool" where
  "id_of lib S v \<longleftrightarrow>
     v = PyNone \<or>
     (\<exists>r d. Reply r \<in> S \<and> (status_code r = 409 \<or> status_code r = 200) \<and>
        json_loads lib (text' r) = Some d \<and> getitem d ''id'' = Inr v)"

text \<open>The three requests \<open>event\<close> makes, for the rebuilt base URL \<open>B\<close>.\<close>

definition wire ::
  "pylib \<Rightarrow> reply set \<Rightarrow> string \<Rightarrow> string \<Rightarrow> string \<Rightarrow> string \<Rightarrow> int \<Rightarrow> request \<Rightarrow> bool" where
  "wire lib S B accesstoken event_name event_message timestamp q \<longleftrightarrow>
     q = login_request accesstoken (B @ ''login/'') \<or>
     (\<exists>t. q = eventpush_request event_name t (B @ ''events/'')) \<or>
     (\<exists>t v. id_of lib S v \<and>
        q = eventdatapush_request event_message timestamp t
              (B @ ''events/'' @ py_str lib v @ ''/data/''))"

section \<open>Properties\<close>

lemmas run_defs = event_try_def event_create_def event_push_def login_def eventpush_def
  eventdatapush_def requests_post_def
  io_bind_def io_return_def io_raise_def getattr_err_def Let_def

lemmas event_defs = event_def Let_def except_AttributeError_def io_return_def

subsection \<open>Login refused\<close>

lemma try_login_refused:
  assumes "replies w = Reply r # rest" and "status_code r \<noteq> 200"
  shows "event_try lib B accesstoken event_name event_message timestamp ret0 w =
    (Inl (AttributeError (text' r)),
     w\<lparr>replies := rest, sent := sent w @ [login_request accesstoken (B @ ''login/'')]\<rparr>)"
  using assms by (simp add: run_defs)

text \<open>
  C3. When the login request is answered with a status other than 200, \<open>event\<close> returns
  the record with \<open>result = False\<close> and, as comment, the \<open>AttributeError\<close> whose text is
  the response body; the login request is the only request made.
\<close>

theorem event_login_refused:
  assumes "replies w = Reply r # rest" and "status_code r \<noteq> 200"
  shows "event lib baseurl accesstoken appid event_name event_message timestamp w =
      (Inr \<lparr>name = event_name, changes = Map.empty, result = False,
            comment = Caught (text' r)\<rparr>,
       w\<lparr>replies := rest,
         sent := sent w @
           [login_request accesstoken (baseurl @ ''api/v1/app/'' @ appid @ ''/login/'')]\<rparr>)
    \<and> comment_str (Caught (text' r)) = text' r"
  by (simp add: event_defs try_login_refused[OF assms])

theorem event_login_refused_witness:
  "status_code \<lparr>status_code = 503, text' = ''Service Unavailable''\<rparr> \<noteq> 200 \<and>
   example_event [Reply \<lparr>status_code = 503, text' = ''Service Unavailable''\<rparr>] =
     (Inr \<lparr>name = ''Software updates'', changes = Map.empty, result = False,
           comment = Caught ''Service Unavailable''\<rparr>,
      \<lparr>replies = [],
       sent = [login_request ''42c59aad''
                 ''https://api.coscale.com/api/v1/app/00006e0e/login/'']\<rparr>)"
  using event_login_refused
    [of "\<lparr>replies = [Reply \<lparr>status_code = 503, text' = ''Service Unavailable''\<rparr>], sent = []\<rparr>"
        "\<lparr>status_code = 503, text' = ''Service Unavailable''\<rparr>" "[]"
        example_lib "''https://api.coscale.com/''" "''42c59aad''" "''00006e0e''"
        "''Software updates''" "''Updating to version 2.2''" Omitted]
  by (simp add: example_event_def)

subsection \<open>Runs along one path\<close>

text \<open>
  Each lemma fixes what the server answers, request by request, and gives the outcome
  of the \<open>try\<close> body: its value or exception, the replies left, the requests made.
\<close>

lemma try_create_retried:
  assumes "replies w = Reply l1 # Reply c1 # Reply l2 # Reply c2 # rest"
    and "status_code l1 = 200" "json_loads lib (text' l1) = Some d1" "getitem d1 ''token'' = Inr t1"
    and "status_code c1 = 401"
    and "status_code l2 = 200" "json_loads lib (text' l2) = Some d2" "getitem d2 ''token'' = Inr t2"
    and "status_code c2 = 409 \<or> status_code c2 = 200"
      "json_loads lib (text' c2) = Some d3" "getitem d3 ''id'' = Inr v"
  shows "event_try lib B accesstoken event_name event_message timestamp ret0 w =
    (Inl (AttributeError (no_attribute ''status_code'')),
     w\<lparr>replies := rest, sent := sent w @
        [login_request accesstoken (B @ ''login/''),
         eventpush_request event_name t1 (B @ ''events/''),
         login_request accesstoken (B @ ''login/''),
         eventpush_request event_name t2 (B @ ''events/'')]\<rparr>)"
  using assms by (auto simp add: run_defs)

lemma try_push_refused:
  assumes "replies w = Reply l1 # Reply c1 # Reply p1 # rest"
    and "status_code l1 = 200" "json_loads lib (text' l1) = Some d1" "getitem d1 ''token'' = Inr t1"
    and "status_code c1 = 409 \<or> status_code c1 = 200"
      "json_loads lib (text' c1) = Some d2" "getitem d2 ''id'' = Inr v"
    and "status_code p1 \<noteq> 200" "status_code p1 \<noteq> 401"
  shows "event_try lib B accesstoken event_name event_message timestamp ret0 w =
    (Inr (ret0\<lparr>comment := Text (text' p1)\<rparr>),
     w\<lparr>replies := rest, sent := sent w @
        [login_request accesstoken (B @ ''login/''),
         eventpush_request event_name t1 (B @ ''events/''),
         eventdatapush_request event_message timestamp t1
           (B @ ''events/'' @ py_str lib v @ ''/data/'')]\<rparr>)"
  using assms by (auto simp add: run_defs)

lemma try_push_401_twice:
  assumes "replies w = Reply l1 # Reply c1 # Reply p1 # Reply l2 # Reply p2 # rest"
    and "status_code l1 = 200" "json_loads lib (text' l1) = Some d1" "getitem d1 ''token'' = Inr t1"
    and "status_code c1 = 409 \<or> status_code c1 = 200"
      "json_loads lib (text' c1) = Some d2" "getitem d2 ''id'' = Inr v"
    and "status_code p1 = 401"
    and "status_code l2 = 200" "json_loads lib (text' l2) = Some d3" "getitem d3 ''token'' = Inr t2"
    and "status_code p2 = 401"
  shows "event_try lib B accesstoken event_name event_message timestamp ret0 w =
    (Inr (ret0\<lparr>result := True, comment := Text (''Sent event: '' @ event_name)\<rparr>),
     w\<lparr>replies := rest, sent := sent w @
        [login_request accesstoken (B @ ''login/''),
         eventpush_request event_name t1 (B @ ''events/''),
         eventdatapush_request event_message timestamp t1
           (B @ ''events/'' @ py_str lib v @ ''/data/''),
         login_request accesstoken (B @ ''login/''),
         eventdatapush_request event_message timestamp t2
           (B @ ''events/'' @ py_str lib v @ ''/data/'')]\<rparr>)"
  using assms by (auto simp add: run_defs)

lemma try_push_retried:
  assumes "replies w = Reply l1 # Reply c1 # Reply p1 # Reply l2 # Reply p2 # rest"
    and "status_code l1 = 200" "json_loads lib (text' l1) = Some d1" "getitem d1 ''token'' = Inr t1"
    and "status_code c1 = 409 \<or> status_code c1 = 200"
      "json_loads lib (text' c1) = Some d2" "getitem d2 ''id'' = Inr v"
    and "status_code p1 = 401"
    and "status_code l2 = 200" "json_loads lib (text' l2) = Some d3" "getitem d3 ''token'' = Inr t2"
    and "status_code p2 = 200"
  shows "event_try lib B accesstoken event_name event_message timestamp ret0 w =
    (Inl (AttributeError (no_attribute ''status_code'')),
     w\<lparr>replies := rest, sent := sent w @
        [login_request accesstoken (B @ ''login/''),
         eventpush_request event_name t1 (B @ ''events/''),
         eventdatapush_request event_message timestamp t1
           (B @ ''events/'' @ py_str lib v @ ''/data/''),
         login_request accesstoken (B @ ''login/''),
         eventdatapush_request event_message timestamp t2
           (B @ ''events/'' @ py_str lib v @ ''/data/'')]\<rparr>)"
  using assms by (auto simp add: run_defs)

subsection \<open>A retry that succeeds\<close>

text \<open>
  After a retry that succeeds, \<open>err\<close> is \<open>None\<close>, and the test on \<open>err.status_code\<close>
  that follows raises \<open>AttributeError\<close>; the handler meant for a refused login catches
  it. For every run in which the first create is answered 401 and the second 200 or
  409 with an id, \<open>event\<close> stops after four requests with \<open>result = False\<close>.
\<close>

lemma event_create_retried:
  assumes "replies w = Reply l1 # Reply c1 # Reply l2 # Reply c2 # rest"
    and "status_code l1 = 200" "json_loads lib (text' l1) = Some d1" "getitem d1 ''token'' = Inr t1"
    and "status_code c1 = 401"
    and "status_code l2 = 200" "json_loads lib (text' l2) = Some d2" "getitem d2 ''token'' = Inr t2"
    and "status_code c2 = 409 \<or> status_code c2 = 200"
      "json_loads lib (text' c2) = Some d3" "getitem d3 ''id'' = Inr v"
  shows "event lib baseurl accesstoken appid event_name event_message timestamp w =
    (Inr \<lparr>name = event_name, changes = Map.empty, result = False,
          comment = Caught (no_attribute ''status_code'')\<rparr>,
     w\<lparr>replies := rest, sent := sent w @
        [login_request accesstoken (baseurl @ ''api/v1/app/'' @ appid @ ''/login/''),
         eventpush_request event_name t1 (baseurl @ ''api/v1/app/'' @ appid @ ''/events/''),
         login_request accesstoken (baseurl @ ''api/v1/app/'' @ appid @ ''/login/''),
         eventpush_request event_name t2 (baseurl @ ''api/v1/app/'' @ appid @ ''/events/'')]\<rparr>)"
  by (simp add: event_defs try_create_retried[OF assms])

text \<open>
  C1. The claim: create answered 401, then 200 with an id on the retry, gives two logins,
  two creates, and then the data push and \<open>result = True\<close>. The run below has the two
  logins and the two creates, but no data push: it ends with \<open>result = False\<close>, the
  comment is the \<open>AttributeError\<close> of \<open>None.status_code\<close>, and the reply kept for the
  push is never asked for.
\<close>

theorem event_create_retry_run:
  \<open>example_event
     [Reply \<lparr>status_code = 200, text' = ''{"token": "t1"}''\<rparr>,
      Reply \<lparr>status_code = 401, text' = ''Unauthorized''\<rparr>,
      Reply \<lparr>status_code = 200, text' = ''{"token": "t2"}''\<rparr>,
      Reply \<lparr>status_code = 200, text' = ''{"id": 7}''\<rparr>,
      Reply \<lparr>status_code = 200, text' = ''''\<rparr>] =
   (Inr \<lparr>name = ''Software updates'', changes = Map.empty, result = False,
         comment = Caught (no_attribute ''status_code'')\<rparr>,
    \<lparr>replies = [Reply \<lparr>status_code = 200, text' = ''''\<rparr>],
     sent =
       [login_request ''42c59aad'' ''https://api.coscale.com/api/v1/app/00006e0e/login/'',
        eventpush_request ''Software updates'' (PyStr ''t1'')
          ''https://api.coscale.com/api/v1/app/00006e0e/events/'',
        login_request ''42c59aad'' ''https://api.coscale.com/api/v1/app/00006e0e/login/'',
        eventpush_request ''Software updates'' (PyStr ''t2'')
          ''https://api.coscale.com/api/v1/app/00006e0e/events/'']\<rparr>)\<close>
  by (simp add: example_event_def example_lib_def event_def except_AttributeError_def run_defs)

subsection \<open>The result flag\<close>

text \<open>
  C2. The claim: \<open>result = True\<close> exactly when login, create and push all succeeded.
  First run: the data push is answered 401 twice, never 200, and \<open>event\<close> returns
  \<open>result = True\<close> with the comment "Sent event". Second run: the retried push is
  answered 200, the whole sequence has succeeded, and \<open>event\<close> returns \<open>result = False\<close>.
\<close>

theorem event_result_runs:
  \<open>fst (example_event
     [Reply \<lparr>status_code = 200, text' = ''{"token": "t1"}''\<rparr>,
      Reply \<lparr>status_code = 200, text' = ''{"id": 7}''\<rparr>,
      Reply \<lparr>status_code = 401, text' = ''Unauthorized''\<rparr>,
      Reply \<lparr>status_code = 200, text' = ''{"token": "t2"}''\<rparr>,
      Reply \<lparr>status_code = 401, text' = ''Unauthorized''\<rparr>]) =
     Inr \<lparr>name = ''Software updates'', changes = Map.empty, result = True,
          comment = Text ''Sent event: Software updates''\<rparr>
   \<and>
   fst (example_event
     [Reply \<lparr>status_code = 200, text' = ''{"token": "t1"}''\<rparr>,
      Reply \<lparr>status_code = 200, text' = ''{"id": 7}''\<rparr>,
      Reply \<lparr>status_code = 401, text' = ''Unauthorized''\<rparr>,
      Reply \<lparr>status_code = 200, text' = ''{"token": "t2"}''\<rparr>,
      Reply \<lparr>status_code = 200, text' = ''''\<rparr>]) =
     Inr \<lparr>name = ''Software updates'', changes = Map.empty, result = False,
          comment = Caught (no_attribute ''status_code'')\<rparr>\<close>
  by (simp add: example_event_def example_lib_def event_def except_AttributeError_def run_defs)

subsection \<open>Data push refused\<close>

text \<open>
  C5. When login and create succeed and the data push is answered with a status that is
  neither 200 nor 401 (500, say), \<open>event\<close> returns \<open>result = False\<close> with the body of
  that response as comment, after three requests.
\<close>

theorem event_push_refused:
  assumes "replies w = Reply l1 # Reply c1 # Reply p1 # rest"
    and "status_code l1 = 200" "json_loads lib (text' l1) = Some d1" "getitem d1 ''token'' = Inr t1"
    and "status_code c1 = 409 \<or> status_code c1 = 200"
      "json_loads lib (text' c1) = Some d2" "getitem d2 ''id'' = Inr v"
    and "status_code p1 \<noteq> 200" "status_code p1 \<noteq> 401"
  shows "event lib baseurl accesstoken appid event_name event_message timestamp w =
    (Inr \<lparr>name = event_name, changes = Map.empty, result = False, comment = Text (text' p1)\<rparr>,
     w\<lparr>replies := rest, sent := sent w @
        [login_request accesstoken (baseurl @ ''api/v1/app/'' @ appid @ ''/login/''),
         eventpush_request event_name t1 (baseurl @ ''api/v1/app/'' @ appid @ ''/events/''),
         eventdatapush_request event_message (case timestamp of Omitted \<Rightarrow> 0 | Given t \<Rightarrow> t) t1
           (baseurl @ ''api/v1/app/'' @ appid @ ''/events/'' @ py_str lib v @ ''/data/'')]\<rparr>)"
  by (simp add: event_defs try_push_refused[OF assms])

theorem event_push_refused_witness:
  \<open>status_code \<lparr>status_code = 500, text' = ''Internal Server Error''\<rparr> \<noteq> 200 \<and>
   status_code \<lparr>status_code = 500, text' = ''Internal Server Error''\<rparr> \<noteq> 401 \<and>
   fst (example_event
     [Reply \<lparr>status_code = 200, text' = ''{"token": "t1"}''\<rparr>,
      Reply \<lparr>status_code = 200, text' = ''{"id": 7}''\<rparr>,
      Reply \<lparr>status_code = 500, text' = ''Internal Server Error''\<rparr>]) =
     Inr \<lparr>name = ''Software updates'', changes = Map.empty, result = False,
          comment = Text ''Internal Server Error''\<rparr>\<close>
  using event_push_refused
    [where w = \<open>\<lparr>replies =
         [Reply \<lparr>status_code = 200, text' = ''{"token": "t1"}''\<rparr>,
          Reply \<lparr>status_code = 200, text' = ''{"id": 7}''\<rparr>,
          Reply \<lparr>status_code = 500, text' = ''Internal Server Error''\<rparr>], sent = []\<rparr>\<close>
       and ?l1.0 = \<open>\<lparr>status_code = 200, text' = ''{"token": "t1"}''\<rparr>\<close>
       and ?c1.0 = \<open>\<lparr>status_code = 200, text' = ''{"id": 7}''\<rparr>\<close>
       and ?p1.0 = \<open>\<lparr>status_code = 500, text' = ''Internal Server Error''\<rparr>\<close>
       and rest = "[]" and lib = example_lib
       and ?d1.0 = "PyDict [(''token'', PyStr ''t1'')]" and ?t1.0 = "PyStr ''t1''"
       and ?d2.0 = "PyDict [(''id'', PyInt 7)]" and v = "PyInt 7"
       and baseurl = "''https://api.coscale.com/''" and accesstoken = "''42c59aad''"
       and appid = "''00006e0e''" and event_name = "''Software updates''"
       and event_message = "''Updating to version 2.2''" and timestamp = Omitted]
  by (simp add: example_event_def example_lib_def)

subsection \<open>Runs through a retry\<close>

lemma snd_except_return:
  "snd (except_AttributeError m (\<lambda>err. io_return (f err)) w) = snd (m w)"
  by (cases "m w") (auto simp: except_AttributeError_def io_return_def split: sum.splits py_exn.splits)

lemma event_push_first:
  "\<exists>more. sent (snd (event_push lib B accesstoken event_message timestamp ret0 token event_id w)) =
     sent w @ eventdatapush_request event_message timestamp token
                (B @ ''events/'' @ py_str lib event_id @ ''/data/'') # more"
  by (auto simp add: event_push_def login_def eventdatapush_def requests_post_def
      io_bind_def io_return_def io_raise_def getattr_err_def Let_def
      split: list.splits reply.splits sum.splits option.splits)

lemma try_push_401:
  assumes "replies w = Reply l1 # Reply c1 # Reply p1 # rest"
    and "status_code l1 = 200" "json_loads lib (text' l1) = Some d1" "getitem d1 ''token'' = Inr t1"
    and "status_code c1 = 409 \<or> status_code c1 = 200"
      "json_loads lib (text' c1) = Some d2" "getitem d2 ''id'' = Inr v"
    and "status_code p1 = 401"
  shows "sent (snd (event_try lib B accesstoken event_name event_message timestamp ret0 w)) =
     sent w @
       [login_request accesstoken (B @ ''login/''),
        eventpush_request event_name t1 (B @ ''events/''),
        eventdatapush_request event_message timestamp t1
          (B @ ''events/'' @ py_str lib v @ ''/data/''),
        login_request accesstoken (B @ ''login/'')] @
       (case fst (login lib accesstoken (B @ ''login/'') \<lparr>replies = rest, sent = []\<rparr>) of
          Inr t2 \<Rightarrow> [eventdatapush_request event_message timestamp t2
                      (B @ ''events/'' @ py_str lib v @ ''/data/'')]
        | Inl e \<Rightarrow> [])"
  using assms
  by (auto simp add: run_defs split: list.splits reply.splits sum.splits option.splits)


lemma try_create_conflict:
  assumes "replies w = Reply l1 # Reply c1 # rest"
    and "status_code l1 = 200" "json_loads lib (text' l1) = Some d1" "getitem d1 ''token'' = Inr t1"
    and "status_code c1 = 409 \<or> status_code c1 = 200"
      "json_loads lib (text' c1) = Some d2" "getitem d2 ''id'' = Inr v"
  shows "\<exists>more. sent (snd (event_try lib B accesstoken event_name event_message timestamp ret0 w)) =
     sent w @
       [login_request accesstoken (B @ ''login/''),
        eventpush_request event_name t1 (B @ ''events/''),
        eventdatapush_request event_message timestamp t1
          (B @ ''events/'' @ py_str lib v @ ''/data/'')] @ more"
proof -
  let ?w2 = "w\<lparr>replies := rest, sent := sent w @
       [login_request accesstoken (B @ ''login/''),
        eventpush_request event_name t1 (B @ ''events/'')]\<rparr>"
  have "sent (snd (event_try lib B accesstoken event_name event_message timestamp ret0 w)) =
     sent (snd (event_push lib B accesstoken event_message timestamp ret0 t1 v ?w2))"
    using assms
    by (auto simp add: event_try_def event_create_def login_def eventpush_def requests_post_def
        io_bind_def io_return_def io_raise_def getattr_err_def Let_def
        split: prod.splits sum.splits flow.splits)
  with event_push_first[of lib B accesstoken event_message timestamp ret0 t1 v ?w2]
  show ?thesis by auto
qed

lemma create_401_twice:
  assumes "replies w = Reply c1 # Reply l2 # Reply c2 # rest"
    and "status_code c1 = 401"
    and "status_code l2 = 200" "json_loads lib (text' l2) = Some d2" "getitem d2 ''token'' = Inr t2"
    and "status_code c2 = 401"
  shows "event_create lib B accesstoken event_name ret0 t1 w =
    (Inr (Continue (t2, PyNone)),
     w\<lparr>replies := rest, sent := sent w @
        [eventpush_request event_name t1 (B @ ''events/''),
         login_request accesstoken (B @ ''login/''),
         eventpush_request event_name t2 (B @ ''events/'')]\<rparr>)"
  using assms
  by (simp add: event_create_def login_def eventpush_def requests_post_def
        io_bind_def io_return_def io_raise_def getattr_err_def Let_def)

lemma try_create_401_twice:
  assumes "replies w = Reply l1 # Reply c1 # Reply l2 # Reply c2 # rest"
    and "status_code l1 = 200" "json_loads lib (text' l1) = Some d1" "getitem d1 ''token'' = Inr t1"
    and "status_code c1 = 401"
    and "status_code l2 = 200" "json_loads lib (text' l2) = Some d2" "getitem d2 ''token'' = Inr t2"
    and "status_code c2 = 401"
  shows "\<exists>more. sent (snd (event_try lib B accesstoken event_name event_message timestamp ret0 w)) =
     sent w @
       [login_request accesstoken (B @ ''login/''),
        eventpush_request event_name t1 (B @ ''events/''),
        login_request accesstoken (B @ ''login/''),
        eventpush_request event_name t2 (B @ ''events/''),
        eventdatapush_request event_message timestamp t2 (B @ ''events/None/data/'')] @ more"
proof -
  let ?w4 = "w\<lparr>replies := rest, sent := sent w @
       [login_request accesstoken (B @ ''login/''),
        eventpush_request event_name t1 (B @ ''events/''),
        login_request accesstoken (B @ ''login/''),
        eventpush_request event_name t2 (B @ ''events/'')]\<rparr>"
  have "sent (snd (event_try lib B accesstoken event_name event_message timestamp ret0 w)) =
     sent (snd (event_push lib B accesstoken event_message timestamp ret0 t2 PyNone ?w4))"
    using assms
    by (auto simp add: event_try_def event_create_def login_def eventpush_def requests_post_def
        io_bind_def io_return_def io_raise_def getattr_err_def Let_def
        split: prod.splits sum.splits flow.splits)
  with event_push_first[of lib B accesstoken event_message timestamp ret0 t2 PyNone ?w4]
  show ?thesis by auto
qed

subsection \<open>Create answered 409\<close>

text \<open>
  C4. A create request answered 409 with a JSON body that has an id is handled as one
  answered 200: \<open>eventpush\<close> returns \<open>(None, id)\<close>, the same as for status 200 with that
  body, and \<open>event\<close> goes on to the data push, at the URL built from that id.
\<close>

theorem event_create_conflict:
  assumes "replies w = Reply l1 # Reply c1 # rest"
    and "status_code l1 = 200" "json_loads lib (text' l1) = Some d1" "getitem d1 ''token'' = Inr t1"
    and "status_code c1 = 409"
    and "json_loads lib (text' c1) = Some d2" "getitem d2 ''id'' = Inr v"
  shows "eventpush lib event_name t u (w\<lparr>replies := Reply c1 # rest\<rparr>) =
      (Inr (None, v), w\<lparr>replies := rest, sent := sent w @ [eventpush_request event_name t u]\<rparr>)
    \<and> eventpush lib event_name t u (w\<lparr>replies := Reply (c1\<lparr>status_code := 200\<rparr>) # rest\<rparr>) =
      (Inr (None, v), w\<lparr>replies := rest, sent := sent w @ [eventpush_request event_name t u]\<rparr>)
    \<and> (\<exists>more. sent (snd (event lib baseurl accesstoken appid event_name event_message timestamp w)) =
      sent w @
        [login_request accesstoken (baseurl @ ''api/v1/app/'' @ appid @ ''/login/''),
         eventpush_request event_name t1 (baseurl @ ''api/v1/app/'' @ appid @ ''/events/''),
         eventdatapush_request event_message (case timestamp of Omitted \<Rightarrow> 0 | Given t \<Rightarrow> t) t1
           (baseurl @ ''api/v1/app/'' @ appid @ ''/events/'' @ py_str lib v @ ''/data/'')] @ more)"
proof (intro conjI)
  show "eventpush lib event_name t u (w\<lparr>replies := Reply c1 # rest\<rparr>) =
      (Inr (None, v), w\<lparr>replies := rest, sent := sent w @ [eventpush_request event_name t u]\<rparr>)"
    using assms(5-7)
    by (simp add: eventpush_def requests_post_def io_bind_def io_return_def)
  show "eventpush lib event_name t u (w\<lparr>replies := Reply (c1\<lparr>status_code := 200\<rparr>) # rest\<rparr>) =
      (Inr (None, v), w\<lparr>replies := rest, sent := sent w @ [eventpush_request event_name t u]\<rparr>)"
    using assms(5-7)
    by (simp add: eventpush_def requests_post_def io_bind_def io_return_def)
  have c1: "status_code c1 = 409 \<or> status_code c1 = 200"
    using assms(5) by simp
  show "\<exists>more. sent (snd (event lib baseurl accesstoken appid event_name event_message timestamp w)) =
      sent w @
        [login_request accesstoken (baseurl @ ''api/v1/app/'' @ appid @ ''/login/''),
         eventpush_request event_name t1 (baseurl @ ''api/v1/app/'' @ appid @ ''/events/''),
         eventdatapush_request event_message (case timestamp of Omitted \<Rightarrow> 0 | Given t \<Rightarrow> t) t1
           (baseurl @ ''api/v1/app/'' @ appid @ ''/events/'' @ py_str lib v @ ''/data/'')] @ more"
    using try_create_conflict[OF assms(1-4) c1 assms(6,7),
        where B = "baseurl @ ''api/v1/app/'' @ appid @ ''/''" and accesstoken = accesstoken
          and event_name = event_name and event_message = event_message
          and timestamp = "case timestamp of Omitted \<Rightarrow> 0 | Given t \<Rightarrow> t"
          and ?ret0.0 = "\<lparr>name = event_name, changes = Map.empty, result = False,
                           comment = Text ''''\<rparr>"]
    by (simp add: event_def Let_def snd_except_return)
qed

theorem event_create_conflict_witness:
  \<open>status_code \<lparr>status_code = 409, text' = ''{"id": 7}''\<rparr> = 409 \<and>
   example_event
     [Reply \<lparr>status_code = 200, text' = ''{"token": "t1"}''\<rparr>,
      Reply \<lparr>status_code = 409, text' = ''{"id": 7}''\<rparr>,
      Reply \<lparr>status_code = 200, text' = ''''\<rparr>] =
   (Inr \<lparr>name = ''Software updates'', changes = Map.empty, result = True,
         comment = Text ''Sent event: Software updates''\<rparr>,
    \<lparr>replies = [],
     sent =
       [login_request ''42c59aad'' ''https://api.coscale.com/api/v1/app/00006e0e/login/'',
        eventpush_request ''Software updates'' (PyStr ''t1'')
          ''https://api.coscale.com/api/v1/app/00006e0e/events/'',
        eventdatapush_request ''Updating to version 2.2'' 0 (PyStr ''t1'')
          ''https://api.coscale.com/api/v1/app/00006e0e/events/7/data/'']\<rparr>)\<close>
  using event_create_conflict
    [where w = \<open>\<lparr>replies =
         [Reply \<lparr>status_code = 200, text' = ''{"token": "t1"}''\<rparr>,
          Reply \<lparr>status_code = 409, text' = ''{"id": 7}''\<rparr>,
          Reply \<lparr>status_code = 200, text' = ''''\<rparr>], sent = []\<rparr>\<close>
       and ?l1.0 = \<open>\<lparr>status_code = 200, text' = ''{"token": "t1"}''\<rparr>\<close>
       and ?c1.0 = \<open>\<lparr>status_code = 409, text' = ''{"id": 7}''\<rparr>\<close>
       and rest = \<open>[Reply \<lparr>status_code = 200, text' = ''''\<rparr>]\<close> and lib = example_lib
       and ?d1.0 = "PyDict [(''token'', PyStr ''t1'')]" and ?t1.0 = "PyStr ''t1''"
       and ?d2.0 = "PyDict [(''id'', PyInt 7)]" and v = "PyInt 7"
       and t = "PyStr ''t1''" and u = "''https://api.coscale.com/api/v1/app/00006e0e/events/''"
       and baseurl = "''https://api.coscale.com/''" and accesstoken = "''42c59aad''"
       and appid = "''00006e0e''" and event_name = "''Software updates''"
       and event_message = "''Updating to version 2.2''" and timestamp = Omitted]
  by (simp add: example_event_def example_lib_def event_def except_AttributeError_def run_defs str_int_def digits.simps)

subsection \<open>Data push answered 401\<close>

text \<open>
  C8, as stated: after a data push answered 401, \<open>event\<close> logs in again once and sends the
  data push again exactly once. In the run below the second login is answered 503:
  \<open>login\<close> raises, \<open>event\<close> returns, and the data push has been sent once only.
\<close>

theorem event_push_401_relogin_refused:
  \<open>sent (snd (example_event
     [Reply \<lparr>status_code = 200, text' = ''{"token": "t1"}''\<rparr>,
      Reply \<lparr>status_code = 200, text' = ''{"id": 7}''\<rparr>,
      Reply \<lparr>status_code = 401, text' = ''Unauthorized''\<rparr>,
      Reply \<lparr>status_code = 503, text' = ''Service Unavailable''\<rparr>])) =
     [login_request ''42c59aad'' ''https://api.coscale.com/api/v1/app/00006e0e/login/'',
      eventpush_request ''Software updates'' (PyStr ''t1'')
        ''https://api.coscale.com/api/v1/app/00006e0e/events/'',
      eventdatapush_request ''Updating to version 2.2'' 0 (PyStr ''t1'')
        ''https://api.coscale.com/api/v1/app/00006e0e/events/7/data/'',
      login_request ''42c59aad'' ''https://api.coscale.com/api/v1/app/00006e0e/login/'']
   \<and> count_list
       (map url (sent (snd (example_event
         [Reply \<lparr>status_code = 200, text' = ''{"token": "t1"}''\<rparr>,
          Reply \<lparr>status_code = 200, text' = ''{"id": 7}''\<rparr>,
          Reply \<lparr>status_code = 401, text' = ''Unauthorized''\<rparr>,
          Reply \<lparr>status_code = 503, text' = ''Service Unavailable''\<rparr>]))))
       ''https://api.coscale.com/api/v1/app/00006e0e/events/7/data/'' \<noteq> 2\<close>
  by (simp add: example_event_def example_lib_def event_def except_AttributeError_def run_defs
      str_int_def digits.simps)

text \<open>
  C8, amended. After login and create have succeeded and the data push is answered 401,
  \<open>event\<close> sends exactly one more login request. When that login returns a token, it
  sends the data push once more, with the new token and to the same URL, and nothing
  after it, whatever the answer to the second push is. When that login fails, it sends
  nothing more. The replies left after the 401 are \<open>rest\<close>; the second login is run on
  them.
\<close>

theorem event_push_401:
  assumes "replies w = Reply l1 # Reply c1 # Reply p1 # rest"
    and "status_code l1 = 200" "json_loads lib (text' l1) = Some d1" "getitem d1 ''token'' = Inr t1"
    and "status_code c1 = 409 \<or> status_code c1 = 200"
      "json_loads lib (text' c1) = Some d2" "getitem d2 ''id'' = Inr v"
    and "status_code p1 = 401"
  shows "sent (snd (event lib baseurl accesstoken appid event_name event_message timestamp w)) =
     sent w @
       [login_request accesstoken (baseurl @ ''api/v1/app/'' @ appid @ ''/login/''),
        eventpush_request event_name t1 (baseurl @ ''api/v1/app/'' @ appid @ ''/events/''),
        eventdatapush_request event_message (case timestamp of Omitted \<Rightarrow> 0 | Given t \<Rightarrow> t) t1
          (baseurl @ ''api/v1/app/'' @ appid @ ''/events/'' @ py_str lib v @ ''/data/''),
        login_request accesstoken (baseurl @ ''api/v1/app/'' @ appid @ ''/login/'')] @
       (case fst (login lib accesstoken (baseurl @ ''api/v1/app/'' @ appid @ ''/login/'')
                   \<lparr>replies = rest, sent = []\<rparr>) of
          Inr t2 \<Rightarrow>
            [eventdatapush_request event_message
               (case timestamp of Omitted \<Rightarrow> 0 | Given t \<Rightarrow> t) t2
               (baseurl @ ''api/v1/app/'' @ appid @ ''/events/'' @ py_str lib v @ ''/data/'')]
        | Inl e \<Rightarrow> [])"
  using try_push_401[OF assms,
        where B = "baseurl @ ''api/v1/app/'' @ appid @ ''/''" and accesstoken = accesstoken
          and event_name = event_name and event_message = event_message
          and timestamp = "case timestamp of Omitted \<Rightarrow> 0 | Given t \<Rightarrow> t"
          and ?ret0.0 = "\<lparr>name = event_name, changes = Map.empty, result = False,
                           comment = Text ''''\<rparr>"]
  by (simp add: event_def Let_def snd_except_return cong: sum.case_cong)

theorem event_push_401_witness:
  \<open>status_code \<lparr>status_code = 401, text' = ''Unauthorized''\<rparr> = 401 \<and>
   sent (snd (example_event
     [Reply \<lparr>status_code = 200, text' = ''{"token": "t1"}''\<rparr>,
      Reply \<lparr>status_code = 200, text' = ''{"id": 7}''\<rparr>,
      Reply \<lparr>status_code = 401, text' = ''Unauthorized''\<rparr>,
      Reply \<lparr>status_code = 200, text' = ''{"token": "t2"}''\<rparr>,
      Reply \<lparr>status_code = 500, text' = ''Internal Server Error''\<rparr>,
      Reply \<lparr>status_code = 200, text' = ''''\<rparr>])) =
     [login_request ''42c59aad'' ''https://api.coscale.com/api/v1/app/00006e0e/login/'',
      eventpush_request ''Software updates'' (PyStr ''t1'')
        ''https://api.coscale.com/api/v1/app/00006e0e/events/'',
      eventdatapush_request ''Updating to version 2.2'' 0 (PyStr ''t1'')
        ''https://api.coscale.com/api/v1/app/00006e0e/events/7/data/'',
      login_request ''42c59aad'' ''https://api.coscale.com/api/v1/app/00006e0e/login/'',
      eventdatapush_request ''Updating to version 2.2'' 0 (PyStr ''t2'')
        ''https://api.coscale.com/api/v1/app/00006e0e/events/7/data/'']\<close>
  using event_push_401
    [where w = \<open>\<lparr>replies =
         [Reply \<lparr>status_code = 200, text' = ''{"token": "t1"}''\<rparr>,
          Reply \<lparr>status_code = 200, text' = ''{"id": 7}''\<rparr>,
          Reply \<lparr>status_code = 401, text' = ''Unauthorized''\<rparr>,
          Reply \<lparr>status_code = 200, text' = ''{"token": "t2"}''\<rparr>,
          Reply \<lparr>status_code = 500, text' = ''Internal Server Error''\<rparr>,
          Reply \<lparr>status_code = 200, text' = ''''\<rparr>], sent = []\<rparr>\<close>
       and ?l1.0 = \<open>\<lparr>status_code = 200, text' = ''{"token": "t1"}''\<rparr>\<close>
       and ?c1.0 = \<open>\<lparr>status_code = 200, text' = ''{"id": 7}''\<rparr>\<close>
       and ?p1.0 = \<open>\<lparr>status_code = 401, text' = ''Unauthorized''\<rparr>\<close>
       and rest = \<open>[Reply \<lparr>status_code = 200, text' = ''{"token": "t2"}''\<rparr>,
          Reply \<lparr>status_code = 500, text' = ''Internal Server Error''\<rparr>,
          Reply \<lparr>status_code = 200, text' = ''''\<rparr>]\<close>
       and lib = example_lib
       and ?d1.0 = "PyDict [(''token'', PyStr ''t1'')]" and ?t1.0 = "PyStr ''t1''"
       and ?d2.0 = "PyDict [(''id'', PyInt 7)]" and v = "PyInt 7"
       and baseurl = "''https://api.coscale.com/''" and accesstoken = "''42c59aad''"
       and appid = "''00006e0e''" and event_name = "''Software updates''"
       and event_message = "''Updating to version 2.2''" and timestamp = Omitted]
  by (simp add: example_event_def example_lib_def event_def except_AttributeError_def run_defs str_int_def digits.simps)

subsection \<open>Create answered 401 twice\<close>

text \<open>
  C9. When the create request is answered 401, and again 401 after the second login, the
  create step does not return: the test \<open>err.status_code not in [401, None]\<close> is false, so
  it goes on with the second token and \<open>event_id = None\<close>, and \<open>event\<close> sends the data push
  to the URL that ends in \<open>events/None/data/\<close>.
\<close>

theorem event_create_401_twice:
  assumes "replies w = Reply l1 # Reply c1 # Reply l2 # Reply c2 # rest"
    and "status_code l1 = 200" "json_loads lib (text' l1) = Some d1" "getitem d1 ''token'' = Inr t1"
    and "status_code c1 = 401"
    and "status_code l2 = 200" "json_loads lib (text' l2) = Some d2" "getitem d2 ''token'' = Inr t2"
    and "status_code c2 = 401"
  shows "event_create lib (baseurl @ ''api/v1/app/'' @ appid @ ''/'') accesstoken event_name ret0 t1
        (w\<lparr>replies := Reply c1 # Reply l2 # Reply c2 # rest\<rparr>) =
      (Inr (Continue (t2, PyNone)),
       w\<lparr>replies := rest, sent := sent w @
         [eventpush_request event_name t1 ((baseurl @ ''api/v1/app/'' @ appid @ ''/'') @ ''events/''),
          login_request accesstoken ((baseurl @ ''api/v1/app/'' @ appid @ ''/'') @ ''login/''),
          eventpush_request event_name t2 ((baseurl @ ''api/v1/app/'' @ appid @ ''/'') @ ''events/'')]\<rparr>)
    \<and> (\<exists>more. sent (snd (event lib baseurl accesstoken appid event_name event_message timestamp w)) =
      sent w @
        [login_request accesstoken (baseurl @ ''api/v1/app/'' @ appid @ ''/login/''),
         eventpush_request event_name t1 (baseurl @ ''api/v1/app/'' @ appid @ ''/events/''),
         login_request accesstoken (baseurl @ ''api/v1/app/'' @ appid @ ''/login/''),
         eventpush_request event_name t2 (baseurl @ ''api/v1/app/'' @ appid @ ''/events/''),
         eventdatapush_request event_message (case timestamp of Omitted \<Rightarrow> 0 | Given t \<Rightarrow> t) t2
           ((baseurl @ ''api/v1/app/'' @ appid @ ''/'') @ ''events/None/data/'')] @ more)"
proof (intro conjI)
  show "event_create lib (baseurl @ ''api/v1/app/'' @ appid @ ''/'') accesstoken event_name ret0 t1
        (w\<lparr>replies := Reply c1 # Reply l2 # Reply c2 # rest\<rparr>) =
      (Inr (Continue (t2, PyNone)),
       w\<lparr>replies := rest, sent := sent w @
         [eventpush_request event_name t1 ((baseurl @ ''api/v1/app/'' @ appid @ ''/'') @ ''events/''),
          login_request accesstoken ((baseurl @ ''api/v1/app/'' @ appid @ ''/'') @ ''login/''),
          eventpush_request event_name t2 ((baseurl @ ''api/v1/app/'' @ appid @ ''/'') @ ''events/'')]\<rparr>)"
    using create_401_twice[of "w\<lparr>replies := Reply c1 # Reply l2 # Reply c2 # rest\<rparr>"
        c1 l2 c2 rest lib d2 t2 "baseurl @ ''api/v1/app/'' @ appid @ ''/''"
        accesstoken event_name ret0 t1] assms(5-9)
    by simp
  show "\<exists>more. sent (snd (event lib baseurl accesstoken appid event_name event_message timestamp w)) =
      sent w @
        [login_request accesstoken (baseurl @ ''api/v1/app/'' @ appid @ ''/login/''),
         eventpush_request event_name t1 (baseurl @ ''api/v1/app/'' @ appid @ ''/events/''),
         login_request accesstoken (baseurl @ ''api/v1/app/'' @ appid @ ''/login/''),
         eventpush_request event_name t2 (baseurl @ ''api/v1/app/'' @ appid @ ''/events/''),
         eventdatapush_request event_message (case timestamp of Omitted \<Rightarrow> 0 | Given t \<Rightarrow> t) t2
           ((baseurl @ ''api/v1/app/'' @ appid @ ''/'') @ ''events/None/data/'')] @ more"
    using try_create_401_twice[OF assms,
        where B = "baseurl @ ''api/v1/app/'' @ appid @ ''/''" and accesstoken = accesstoken
          and event_name = event_name and event_message = event_message
          and timestamp = "case timestamp of Omitted \<Rightarrow> 0 | Given t \<Rightarrow> t"
          and ?ret0.0 = "\<lparr>name = event_name, changes = Map.empty, result = False,
                           comment = Text ''''\<rparr>"]
    by (simp add: event_def Let_def snd_except_return)
qed

theorem event_create_401_twice_witness:
  \<open>status_code \<lparr>status_code = 401, text' = ''Unauthorized''\<rparr> = 401 \<and>
   example_event
     [Reply \<lparr>status_code = 200, text' = ''{"token": "t1"}''\<rparr>,
      Reply \<lparr>status_code = 401, text' = ''Unauthorized''\<rparr>,
      Reply \<lparr>status_code = 200, text' = ''{"token": "t2"}''\<rparr>,
      Reply \<lparr>status_code = 401, text' = ''Unauthorized''\<rparr>,
      Reply \<lparr>status_code = 200, text' = ''''\<rparr>] =
   (Inr \<lparr>name = ''Software updates'', changes = Map.empty, result = True,
         comment = Text ''Sent event: Software updates''\<rparr>,
    \<lparr>replies = [],
     sent =
       [login_request ''42c59aad'' ''https://api.coscale.com/api/v1/app/00006e0e/login/'',
        eventpush_request ''Software updates'' (PyStr ''t1'')
          ''https://api.coscale.com/api/v1/app/00006e0e/events/'',
        login_request ''42c59aad'' ''https://api.coscale.com/api/v1/app/00006e0e/login/'',
        eventpush_request ''Software updates'' (PyStr ''t2'')
          ''https://api.coscale.com/api/v1/app/00006e0e/events/'',
        eventdatapush_request ''Updating to version 2.2'' 0 (PyStr ''t2'')
          ''https://api.coscale.com/api/v1/app/00006e0e/events/None/data/'']\<rparr>)\<close>
  using event_create_401_twice
    [where w = \<open>\<lparr>replies =
         [Reply \<lparr>status_code = 200, text' = ''{"token": "t1"}''\<rparr>,
          Reply \<lparr>status_code = 401, text' = ''Unauthorized''\<rparr>,
          Reply \<lparr>status_code = 200, text' = ''{"token": "t2"}''\<rparr>,
          Reply \<lparr>status_code = 401, text' = ''Unauthorized''\<rparr>,
          Reply \<lparr>status_code = 200, text' = ''''\<rparr>], sent = []\<rparr>\<close>
       and ?l1.0 = \<open>\<lparr>status_code = 200, text' = ''{"token": "t1"}''\<rparr>\<close>
       and ?c1.0 = \<open>\<lparr>status_code = 401, text' = ''Unauthorized''\<rparr>\<close>
       and ?l2.0 = \<open>\<lparr>status_code = 200, text' = ''{"token": "t2"}''\<rparr>\<close>
       and ?c2.0 = \<open>\<lparr>status_code = 401, text' = ''Unauthorized''\<rparr>\<close>
       and rest = \<open>[Reply \<lparr>status_code = 200, text' = ''''\<rparr>]\<close>
       and lib = example_lib
       and ?d1.0 = "PyDict [(''token'', PyStr ''t1'')]" and ?t1.0 = "PyStr ''t1''"
       and ?d2.0 = "PyDict [(''token'', PyStr ''t2'')]" and ?t2.0 = "PyStr ''t2''"
       and baseurl = "''https://api.coscale.com/''" and accesstoken = "''42c59aad''"
       and appid = "''00006e0e''" and event_name = "''Software updates''"
       and event_message = "''Updating to version 2.2''" and timestamp = Omitted
       and ?ret0.0 = "\<lparr>name = ''Software updates'', changes = Map.empty, result = False,
                        comment = Text ''''\<rparr>"]
  by (simp add: example_event_def example_lib_def event_def except_AttributeError_def run_defs)

subsection \<open>Rules for \<open>io_spec\<close>\<close>

lemma io_spec_return: "Q x \<Longrightarrow> io_spec S P Q (io_return x)"
  by (simp add: io_spec_def io_return_def)

lemma io_spec_raise: "io_spec S P Q (io_raise e)"
  by (simp add: io_spec_def io_raise_def)

lemma io_spec_bind:
  assumes m: "io_spec S P R m" and f: "\<And>x. R x \<Longrightarrow> io_spec S P Q (f x)"
  shows "io_spec S P Q (io_bind m f)"
  unfolding io_spec_def
proof (intro allI impI)
  fix w :: world assume w: "set (replies w) \<subseteq> S"
  obtain x w1 where mw: "m w = (x, w1)" by (cases "m w")
  from m w mw obtain qs1 where 1: "set (replies w1) \<subseteq> S" "sent w1 = sent w @ qs1" "\<forall>q\<in>set qs1. P q"
    and x: "case x of Inl e \<Rightarrow> True | Inr v \<Rightarrow> R v"
    by (auto simp: io_spec_def)
  show "case io_bind m f w of (x, w') \<Rightarrow>
           set (replies w') \<subseteq> S \<and>
           (\<exists>qs. sent w' = sent w @ qs \<and> (\<forall>q\<in>set qs. P q)) \<and>
           (case x of Inl e \<Rightarrow> True | Inr v \<Rightarrow> Q v)"
  proof (cases x)
    case (Inl e)
    with mw 1 show ?thesis by (simp add: io_bind_def)
  next
    case (Inr v)
    with x have "R v" by simp
    from f[OF this] 1(1) obtain y w2 qs2 where fw: "f v w1 = (y, w2)"
      and 2: "set (replies w2) \<subseteq> S" "sent w2 = sent w1 @ qs2" "\<forall>q\<in>set qs2. P q"
         "case y of Inl e \<Rightarrow> True | Inr v \<Rightarrow> Q v"
      by (cases "f v w1") (auto simp: io_spec_def)
    have "sent w2 = sent w @ (qs1 @ qs2)" "\<forall>q\<in>set (qs1 @ qs2). P q"
      using 1 2 by auto
    then have "\<exists>qs. sent w2 = sent w @ qs \<and> (\<forall>q\<in>set qs. P q)" by blast
    with Inr mw fw 2 show ?thesis by (simp add: io_bind_def)
  qed
qed

lemma io_spec_post:
  assumes "P q" and "\<And>r. Reply r \<in> S \<Longrightarrow> Q r"
  shows "io_spec S P Q (requests_post q)"
  unfolding io_spec_def
proof (intro allI impI)
  fix w :: world assume w: "set (replies w) \<subseteq> S"
  have "set (drop 1 (replies w)) \<subseteq> S"
    using w set_drop_subset[of 1 "replies w"] by blast
  moreover have "case (case replies w of Reply r # _ \<Rightarrow> Inr r | _ \<Rightarrow> Inl RequestException)
     of Inl e \<Rightarrow> True | Inr v \<Rightarrow> Q v"
    using w assms(2) by (auto split: list.splits reply.splits)
  ultimately show "case requests_post q w of (x, w') \<Rightarrow>
           set (replies w') \<subseteq> S \<and>
           (\<exists>qs. sent w' = sent w @ qs \<and> (\<forall>q\<in>set qs. P q)) \<and>
           (case x of Inl e \<Rightarrow> True | Inr v \<Rightarrow> Q v)"
    using assms(1) by (simp add: requests_post_def)
qed

lemma io_spec_except:
  assumes m: "io_spec S P Q m" and h: "\<And>msg. io_spec S P Q (h msg)"
  shows "io_spec S P Q (except_AttributeError m h)"
proof -
  show ?thesis
    unfolding io_spec_def
  proof (intro allI impI)
    fix w :: world assume w: "set (replies w) \<subseteq> S"
    obtain x w1 where mw: "m w = (x, w1)" by (cases "m w")
    from m w mw obtain qs1 where 1: "set (replies w1) \<subseteq> S" "sent w1 = sent w @ qs1" "\<forall>q\<in>set qs1. P q"
      and x: "case x of Inl e \<Rightarrow> True | Inr v \<Rightarrow> Q v"
      by (auto simp: io_spec_def)
    show "case except_AttributeError m h w of (x, w') \<Rightarrow>
           set (replies w') \<subseteq> S \<and>
           (\<exists>qs. sent w' = sent w @ qs \<and> (\<forall>q\<in>set qs. P q)) \<and>
           (case x of Inl e \<Rightarrow> True | Inr v \<Rightarrow> Q v)"
    proof (cases "\<exists>msg. x = Inl (AttributeError msg)")
      case True
      then obtain msg where msg: "x = Inl (AttributeError msg)" by blast
      from h[of msg] 1(1) obtain y w2 qs2 where hw: "h msg w1 = (y, w2)"
        and 2: "set (replies w2) \<subseteq> S" "sent w2 = sent w1 @ qs2" "\<forall>q\<in>set qs2. P q"
         "case y of Inl e \<Rightarrow> True | Inr v \<Rightarrow> Q v"
        by (cases "h msg w1") (auto simp: io_spec_def)
      have "sent w2 = sent w @ (qs1 @ qs2)" "\<forall>q\<in>set (qs1 @ qs2). P q"
        using 1 2 by auto
      then have "\<exists>qs. sent w2 = sent w @ qs \<and> (\<forall>q\<in>set qs. P q)" by blast
      with msg mw hw 2 show ?thesis by (simp add: except_AttributeError_def)
    next
      case False
      then have "except_AttributeError m h w = (x, w1)"
        using mw by (auto simp: except_AttributeError_def split: sum.splits py_exn.splits)
      with 1 x show ?thesis by auto
    qed
  qed
qed

lemma io_specD:
  assumes "io_spec S P Q m" "set (replies w) \<subseteq> S" "m w = (x, w')"
  shows "set (replies w') \<subseteq> S"
    and "\<exists>qs. sent w' = sent w @ qs \<and> (\<forall>q\<in>set qs. P q)"
    and "case x of Inl e \<Rightarrow> True | Inr v \<Rightarrow> Q v"
proof -
  from assms(1) have "set (replies w) \<subseteq> S \<longrightarrow>
        (case m w of (x, w') \<Rightarrow>
           set (replies w') \<subseteq> S \<and>
           (\<exists>qs. sent w' = sent w @ qs \<and> (\<forall>q\<in>set qs. P q)) \<and>
           (case x of Inl e \<Rightarrow> True | Inr v \<Rightarrow> Q v))"
    unfolding io_spec_def by (rule spec)
  with assms(2,3) show "set (replies w') \<subseteq> S"
    and "\<exists>qs. sent w' = sent w @ qs \<and> (\<forall>q\<in>set qs. P q)"
    and "case x of Inl e \<Rightarrow> True | Inr v \<Rightarrow> Q v"
    by simp_all
qed

lemma io_spec_weaken:
  assumes m: "io_spec S P Q m" and imp: "\<And>x. Q x \<Longrightarrow> Q' x"
  shows "io_spec S P Q' m"
  unfolding io_spec_def
proof (intro allI impI)
  fix w :: world assume w: "set (replies w) \<subseteq> S"
  obtain x w1 where mw: "m w = (x, w1)" by (cases "m w")
  note 1 = io_specD[OF m w mw]
  from 1(3) imp have "case x of Inl e \<Rightarrow> True | Inr v \<Rightarrow> Q' v"
    by (cases x) simp_all
  with 1(1,2) mw show "case m w of (x, w') \<Rightarrow>
           set (replies w') \<subseteq> S \<and>
           (\<exists>qs. sent w' = sent w @ qs \<and> (\<forall>q\<in>set qs. P q)) \<and>
           (case x of Inl e \<Rightarrow> True | Inr v \<Rightarrow> Q' v)"
    by simp
qed


lemma login_spec:
  assumes "P (login_request accesstoken u)"
  shows "io_spec S P (\<lambda>t. True) (login lib accesstoken u)"
  unfolding login_def Let_def
  by (rule io_spec_bind[where R = "\<lambda>r. True"])
     (auto intro!: io_spec_post io_spec_raise io_spec_return assms split: option.splits sum.splits)

lemma eventpush_spec:
  assumes "P (eventpush_request n t u)"
  shows "io_spec S P (\<lambda>(err, v). id_of lib S v) (eventpush lib n t u)"
  unfolding eventpush_def Let_def
  by (rule io_spec_bind[where R = "\<lambda>r. Reply r \<in> S"])
     (auto intro!: io_spec_post io_spec_raise io_spec_return assms simp: id_of_def
       split: option.splits sum.splits)

lemma eventdatapush_spec:
  assumes "P (eventdatapush_request m ts t u)"
  shows "io_spec S P (\<lambda>err. True) (eventdatapush m ts t u)"
  unfolding eventdatapush_def Let_def
  by (rule io_spec_bind[where R = "\<lambda>r. True"])
     (auto intro!: io_spec_post io_spec_raise io_spec_return assms)

lemma getattr_err_spec: "io_spec S P (\<lambda>x. True) (getattr_err err field fname)"
  by (cases err) (simp_all add: getattr_err_def io_spec_raise io_spec_return)



lemma io_spec_bind_any:
  assumes "io_spec S P (\<lambda>x. True) m" and "\<And>x. io_spec S P Q (f x)"
  shows "io_spec S P Q (io_bind m f)"
  using assms by (rule io_spec_bind)

lemma io_spec_if:
  assumes "c \<Longrightarrow> io_spec S P Q m1" and "\<not> c \<Longrightarrow> io_spec S P Q m2"
  shows "io_spec S P Q (if c then m1 else m2)"
  using assms by simp

lemma event_create_spec:
  assumes L: "P (login_request accesstoken (B @ ''login/''))"
    and C: "\<And>t. P (eventpush_request event_name t (B @ ''events/''))"
  shows "io_spec S P
     (\<lambda>fl. case fl of Return r \<Rightarrow> name r = name ret0 \<and> changes r = changes ret0
                     | Continue (t, v) \<Rightarrow> id_of lib S v)
     (event_create lib B accesstoken event_name ret0 token)"
    (is "io_spec S P ?Q _")
proof -
  have ep: "io_spec S P (\<lambda>(err, v). id_of lib S v)
      (eventpush lib event_name t (B @ ''events/''))" for t
    by (rule eventpush_spec) (rule C)
  have lg: "io_spec S P (\<lambda>t. True) (login lib accesstoken (B @ ''login/''))"
    by (rule login_spec) (rule L)
  have check: "io_spec S P ?Q
      (io_bind (getattr_err err status_code ''status_code'') (\<lambda>sc.
         if Some sc \<notin> set [Some 401, None] then
           io_bind (getattr_err err text' ''text'') (\<lambda>body.
             io_return (Return (ret0\<lparr>comment := Text body\<rparr>)))
         else io_return (Continue (t, v))))"
    if "id_of lib S v" for err t v
    using that
    by (intro io_spec_bind_any getattr_err_spec io_spec_if io_spec_return) simp_all
  have retry: "io_spec S P (\<lambda>(t, err, v). id_of lib S v)
      (io_bind (login lib accesstoken (B @ ''login/'')) (\<lambda>token2.
       io_bind (eventpush lib event_name token2 (B @ ''events/'')) (\<lambda>(err2, event_id2).
         io_return (token2, err2, event_id2))))"
  proof (rule io_spec_bind_any[OF lg])
    fix token2
    show "io_spec S P (\<lambda>(t, err, v). id_of lib S v)
       (io_bind (eventpush lib event_name token2 (B @ ''events/'')) (\<lambda>(err2, event_id2).
         io_return (token2, err2, event_id2)))"
      by (rule io_spec_bind[OF ep])
         (auto intro: io_spec_return)
  qed
  have after: "io_spec S P ?Q
      (if err \<noteq> None then
         io_bind (getattr_err err status_code ''status_code'') (\<lambda>sc.
         io_bind
           (if sc = 401 then
              io_bind (login lib accesstoken (B @ ''login/'')) (\<lambda>token2.
              io_bind (eventpush lib event_name token2 (B @ ''events/'')) (\<lambda>(err2, event_id2).
                io_return (token2, err2, event_id2)))
            else io_return (token, err, event_id)) (\<lambda>(token, err, event_id).
         io_bind (getattr_err err status_code ''status_code'') (\<lambda>sc.
           if Some sc \<notin> set [Some 401, None] then
             io_bind (getattr_err err text' ''text'') (\<lambda>body.
               io_return (Return (ret0\<lparr>comment := Text body\<rparr>)))
           else io_return (Continue (token, event_id)))))
       else io_return (Continue (token, event_id)))"
    if v: "id_of lib S event_id" for err event_id
  proof (rule io_spec_if, rule io_spec_bind_any[OF getattr_err_spec])
    fix sc
    have pre: "io_spec S P (\<lambda>(t, err, v). id_of lib S v)
        (if sc = 401 then
              io_bind (login lib accesstoken (B @ ''login/'')) (\<lambda>token2.
              io_bind (eventpush lib event_name token2 (B @ ''events/'')) (\<lambda>(err2, event_id2).
                io_return (token2, err2, event_id2)))
            else io_return (token, err, event_id))"
      using v by (intro io_spec_if retry io_spec_return) simp
    show "io_spec S P ?Q
        (io_bind
           (if sc = 401 then
              io_bind (login lib accesstoken (B @ ''login/'')) (\<lambda>token2.
              io_bind (eventpush lib event_name token2 (B @ ''events/'')) (\<lambda>(err2, event_id2).
                io_return (token2, err2, event_id2)))
            else io_return (token, err, event_id)) (\<lambda>(token, err, event_id).
         io_bind (getattr_err err status_code ''status_code'') (\<lambda>sc.
           if Some sc \<notin> set [Some 401, None] then
             io_bind (getattr_err err text' ''text'') (\<lambda>body.
               io_return (Return (ret0\<lparr>comment := Text body\<rparr>)))
           else io_return (Continue (token, event_id)))))"
      by (rule io_spec_bind[OF pre]) (auto intro: check[simplified])
  next
    show "io_spec S P ?Q (io_return (Continue (token, event_id)))"
      using v by (intro io_spec_return) simp
  qed
  show ?thesis
    unfolding event_create_def
    by (rule io_spec_bind[OF ep])
       (auto intro: after[simplified])
qed


lemma event_push_spec:
  assumes L: "P (login_request accesstoken (B @ ''login/''))"
    and D: "\<And>t. P (eventdatapush_request event_message timestamp t
                 (B @ ''events/'' @ py_str lib event_id @ ''/data/''))"
  shows "io_spec S P
     (\<lambda>fl. case fl of Return r \<Rightarrow> name r = name ret0 \<and> changes r = changes ret0
                     | Continue u \<Rightarrow> True)
     (event_push lib B accesstoken event_message timestamp ret0 token event_id)"
proof -
  have lg: "io_spec S P (\<lambda>t. True) (login lib accesstoken (B @ ''login/''))"
    by (rule login_spec) (rule L)
  have dp: "io_spec S P (\<lambda>err. True)
      (eventdatapush event_message timestamp t (B @ ''events/'' @ py_str lib event_id @ ''/data/''))"
    for t
    by (rule eventdatapush_spec) (rule D)
  show ?thesis
    unfolding event_push_def Let_def
    by (auto intro!: io_spec_bind_any io_spec_return lg dp[simplified] getattr_err_spec split: prod.splits)
qed

lemma event_try_spec:
  "io_spec S (wire lib S B accesstoken event_name event_message timestamp)
     (\<lambda>r. name r = name ret0 \<and> changes r = changes ret0)
     (event_try lib B accesstoken event_name event_message timestamp ret0)"
    (is "io_spec S ?P ?Q _")
proof -
  have lg: "io_spec S ?P (\<lambda>t. True) (login lib accesstoken (B @ ''login/''))"
    by (rule login_spec) (simp add: wire_def)
  have cr: "io_spec S ?P
     (\<lambda>fl. case fl of Return r \<Rightarrow> name r = name ret0 \<and> changes r = changes ret0
                     | Continue (t, v) \<Rightarrow> id_of lib S v)
     (event_create lib B accesstoken event_name ret0 token)" for token
    by (rule event_create_spec) (auto simp add: wire_def)
  have pu: "io_spec S ?P
     (\<lambda>fl. case fl of Return r \<Rightarrow> name r = name ret0 \<and> changes r = changes ret0
                     | Continue u \<Rightarrow> True)
     (event_push lib B accesstoken event_message timestamp ret0 token event_id)"
    if "id_of lib S event_id" for token event_id
    using that by (intro event_push_spec) (auto simp add: wire_def)
  have fin: "io_spec S ?P ?Q
      (io_bind (event_push lib B accesstoken event_message timestamp ret0 token event_id)
         (\<lambda>pushed. case pushed of
              Return r \<Rightarrow> io_return r
            | Continue _ \<Rightarrow>
                io_return (ret0\<lparr>result := True,
                                comment := Text (''Sent event: '' @ event_name)\<rparr>)))"
    if "id_of lib S event_id" for token event_id
    by (rule io_spec_bind[OF pu[OF that]]) (auto intro!: io_spec_return split: flow.splits)
  show ?thesis
    unfolding event_try_def
  proof (rule io_spec_bind_any[OF lg], rule io_spec_bind[OF cr])
    fix token :: pyval and created :: "(pyval \<times> pyval) flow"
    assume c: "case created of
        Return r \<Rightarrow> name r = name ret0 \<and> changes r = changes ret0
      | Continue (t, v) \<Rightarrow> id_of lib S v"
    show "io_spec S ?P ?Q
       (case created of
          Return r \<Rightarrow> io_return r
        | Continue (token, event_id) \<Rightarrow>
            io_bind (event_push lib B accesstoken event_message timestamp ret0 token event_id)
              (\<lambda>pushed. case pushed of
                   Return r \<Rightarrow> io_return r
                 | Continue _ \<Rightarrow>
                     io_return (ret0\<lparr>result := True,
                                     comment := Text (''Sent event: '' @ event_name)\<rparr>)))"
    proof (cases created)
      case (Return r)
      with c show ?thesis by (simp add: io_spec_return)
    next
      case (Continue tv)
      obtain t v where tv: "tv = (t, v)" by (cases tv)
      from c Continue tv have v: "id_of lib S v" by simp
      show ?thesis
        unfolding Continue tv flow.case prod.case by (rule fin[OF v])
    qed
  qed
qed

lemma event_spec:
  "io_spec S
     (wire lib S (baseurl @ ''api/v1/app/'' @ appid @ ''/'') accesstoken event_name event_message
        (case timestamp of Omitted \<Rightarrow> 0 | Given t \<Rightarrow> t))
     (\<lambda>r. name r = event_name \<and> changes r = Map.empty)
     (event lib baseurl accesstoken appid event_name event_message timestamp)"
  unfolding event_def Let_def
  apply (rule io_spec_except)
   apply (rule io_spec_weaken[OF event_try_spec])
   apply simp
  apply (rule io_spec_return)
  apply simp
  done

subsection \<open>Every run\<close>

text \<open>
  C10. Whatever the server answers, a record returned by \<open>event\<close> (after success, after
  a refused create or push, or from the \<open>except\<close> clause) has the event name as \<open>name\<close>
  and the empty dict as \<open>changes\<close>.
\<close>

theorem event_name_and_changes:
  assumes "event lib baseurl accesstoken appid event_name event_message timestamp w = (Inr r, w')"
  shows "name r = event_name \<and> changes r = Map.empty"
  using io_specD(3)[OF event_spec subset_refl assms] by simp

theorem event_name_and_changes_witness:
  \<open>example_event
     [Reply \<lparr>status_code = 200, text' = ''{"token": "t1"}''\<rparr>,
      Reply \<lparr>status_code = 403, text' = ''Forbidden''\<rparr>] =
     (Inr \<lparr>name = ''Software updates'', changes = Map.empty, result = False,
           comment = Text ''Forbidden''\<rparr>,
      \<lparr>replies = [],
       sent =
         [login_request ''42c59aad'' ''https://api.coscale.com/api/v1/app/00006e0e/login/'',
          eventpush_request ''Software updates'' (PyStr ''t1'')
            ''https://api.coscale.com/api/v1/app/00006e0e/events/'']\<rparr>)
   \<and> name \<lparr>name = ''Software updates'', changes = Map.empty, result = False,
           comment = Text ''Forbidden''\<rparr> = ''Software updates''
   \<and> changes \<lparr>name = ''Software updates'', changes = Map.empty, result = False,
           comment = Text ''Forbidden''\<rparr> = Map.empty\<close>
  using event_name_and_changes
    [where lib = example_lib and baseurl = "''https://api.coscale.com/''"
       and accesstoken = "''42c59aad''" and appid = "''00006e0e''"
       and event_name = "''Software updates''" and event_message = "''Updating to version 2.2''"
       and timestamp = Omitted
       and w = \<open>\<lparr>replies =
         [Reply \<lparr>status_code = 200, text' = ''{"token": "t1"}''\<rparr>,
          Reply \<lparr>status_code = 403, text' = ''Forbidden''\<rparr>], sent = []\<rparr>\<close>
       and r = "\<lparr>name = ''Software updates'', changes = Map.empty, result = False,
           comment = Text ''Forbidden''\<rparr>"
       and w' = "\<lparr>replies = [],
       sent =
         [login_request ''42c59aad'' ''https://api.coscale.com/api/v1/app/00006e0e/login/'',
          eventpush_request ''Software updates'' (PyStr ''t1'')
            ''https://api.coscale.com/api/v1/app/00006e0e/events/'']\<rparr>"]
  by (simp add: example_event_def example_lib_def event_def except_AttributeError_def run_defs)


text \<open>
  C7. With \<open>base = baseurl + "api/v1/app/" + appid + "/"\<close>, every request \<open>event\<close> makes is
  the login request to \<open>base + "login/"\<close>, a create request to \<open>base + "events/"\<close>, or a
  data push request to \<open>base + "events/" + str(id) + "/data/"\<close>, where \<open>id\<close> is \<open>None\<close> or
  the id in a reply with status 409 or 200.
\<close>

theorem event_request_urls:
  "let base = baseurl @ ''api/v1/app/'' @ appid @ ''/'' in
   \<exists>qs. sent (snd (event lib baseurl accesstoken appid event_name event_message timestamp w)) =
          sent w @ qs \<and>
     (\<forall>q\<in>set qs.
        q = login_request accesstoken (base @ ''login/'') \<or>
        (\<exists>t. q = eventpush_request event_name t (base @ ''events/'')) \<or>
        (\<exists>t v. (v = PyNone \<or>
               (\<exists>r d. Reply r \<in> set (replies w) \<and>
                  (status_code r = 409 \<or> status_code r = 200) \<and>
                  json_loads lib (text' r) = Some d \<and> getitem d ''id'' = Inr v)) \<and>
             q = eventdatapush_request event_message
                   (case timestamp of Omitted \<Rightarrow> 0 | Given t \<Rightarrow> t) t
                   (base @ ''events/'' @ py_str lib v @ ''/data/'')))"
proof -
  obtain x w' where e:
    "event lib baseurl accesstoken appid event_name event_message timestamp w = (x, w')"
    by (cases "event lib baseurl accesstoken appid event_name event_message timestamp w")
  from io_specD(2)[OF event_spec subset_refl e]
  show ?thesis
    by (simp add: e wire_def id_of_def Let_def)
qed

theorem event_request_urls_witness:
  \<open>sent (snd (example_event
     [Reply \<lparr>status_code = 200, text' = ''{"token": "t1"}''\<rparr>,
      Reply \<lparr>status_code = 200, text' = ''{"id": 7}''\<rparr>,
      Reply \<lparr>status_code = 200, text' = ''''\<rparr>])) =
     [login_request ''42c59aad'' ''https://api.coscale.com/api/v1/app/00006e0e/login/'',
      eventpush_request ''Software updates'' (PyStr ''t1'')
        ''https://api.coscale.com/api/v1/app/00006e0e/events/'',
      eventdatapush_request ''Updating to version 2.2'' 0 (PyStr ''t1'')
        ''https://api.coscale.com/api/v1/app/00006e0e/events/7/data/'']
   \<and>
   (let base = ''https://api.coscale.com/'' @ ''api/v1/app/'' @ ''00006e0e'' @ ''/'' in
    \<exists>qs. sent (snd (example_event
       [Reply \<lparr>status_code = 200, text' = ''{"token": "t1"}''\<rparr>,
        Reply \<lparr>status_code = 200, text' = ''{"id": 7}''\<rparr>,
        Reply \<lparr>status_code = 200, text' = ''''\<rparr>])) = qs \<and>
     (\<forall>q\<in>set qs.
        q = login_request ''42c59aad'' (base @ ''login/'') \<or>
        (\<exists>t. q = eventpush_request ''Software updates'' t (base @ ''events/'')) \<or>
        (\<exists>t v. (v = PyNone \<or>
               (\<exists>r d. Reply r \<in> set
                    [Reply \<lparr>status_code = 200, text' = ''{"token": "t1"}''\<rparr>,
                     Reply \<lparr>status_code = 200, text' = ''{"id": 7}''\<rparr>,
                     Reply \<lparr>status_code = 200, text' = ''''\<rparr>] \<and>
                  (status_code r = 409 \<or> status_code r = 200) \<and>
                  json_loads example_lib (text' r) = Some d \<and> getitem d ''id'' = Inr v)) \<and>
             q = eventdatapush_request ''Updating to version 2.2'' 0 t
                   (base @ ''events/'' @ py_str example_lib v @ ''/data/''))))\<close>
proof (rule conjI)
  show \<open>sent (snd (example_event
     [Reply \<lparr>status_code = 200, text' = ''{"token": "t1"}''\<rparr>,
      Reply \<lparr>status_code = 200, text' = ''{"id": 7}''\<rparr>,
      Reply \<lparr>status_code = 200, text' = ''''\<rparr>])) =
     [login_request ''42c59aad'' ''https://api.coscale.com/api/v1/app/00006e0e/login/'',
      eventpush_request ''Software updates'' (PyStr ''t1'')
        ''https://api.coscale.com/api/v1/app/00006e0e/events/'',
      eventdatapush_request ''Updating to version 2.2'' 0 (PyStr ''t1'')
        ''https://api.coscale.com/api/v1/app/00006e0e/events/7/data/'']\<close>
    by (simp add: example_event_def example_lib_def event_def except_AttributeError_def run_defs str_int_def digits.simps)
  show \<open>let base = ''https://api.coscale.com/'' @ ''api/v1/app/'' @ ''00006e0e'' @ ''/'' in
    \<exists>qs. sent (snd (example_event
       [Reply \<lparr>status_code = 200, text' = ''{"token": "t1"}''\<rparr>,
        Reply \<lparr>status_code = 200, text' = ''{"id": 7}''\<rparr>,
        Reply \<lparr>status_code = 200, text' = ''''\<rparr>])) = qs \<and>
     (\<forall>q\<in>set qs.
        q = login_request ''42c59aad'' (base @ ''login/'') \<or>
        (\<exists>t. q = eventpush_request ''Software updates'' t (base @ ''events/'')) \<or>
        (\<exists>t v. (v = PyNone \<or>
               (\<exists>r d. Reply r \<in> set
                    [Reply \<lparr>status_code = 200, text' = ''{"token": "t1"}''\<rparr>,
                     Reply \<lparr>status_code = 200, text' = ''{"id": 7}''\<rparr>,
                     Reply \<lparr>status_code = 200, text' = ''''\<rparr>] \<and>
                  (status_code r = 409 \<or> status_code r = 200) \<and>
                  json_loads example_lib (text' r) = Some d \<and> getitem d ''id'' = Inr v)) \<and>
             q = eventdatapush_request ''Updating to version 2.2'' 0 t
                   (base @ ''events/'' @ py_str example_lib v @ ''/data/'')))\<close>
    using event_request_urls
      [where lib = example_lib and baseurl = "''https://api.coscale.com/''"
         and accesstoken = "''42c59aad''" and appid = "''00006e0e''"
         and event_name = "''Software updates''" and event_message = "''Updating to version 2.2''"
         and timestamp = Omitted
         and w = \<open>\<lparr>replies =
           [Reply \<lparr>status_code = 200, text' = ''{"token": "t1"}''\<rparr>,
            Reply \<lparr>status_code = 200, text' = ''{"id": 7}''\<rparr>,
            Reply \<lparr>status_code = 200, text' = ''''\<rparr>], sent = []\<rparr>\<close>]
    by (simp only: example_event_def world.select_convs append_Nil kwarg.case)
qed

text \<open>
  C6. When \<open>event\<close> is called without a timestamp, every request it makes is a login
  request, a create request, or a data push request whose form carries
  \<open>timestamp = 0\<close>; no request carries any other timestamp.
\<close>

theorem event_timestamp_default:
  "\<exists>qs. sent (snd (event lib baseurl accesstoken appid event_name event_message Omitted w)) =
          sent w @ qs \<and>
     (\<forall>q\<in>set qs.
        ((\<exists>u. q = login_request accesstoken u) \<or>
         (\<exists>t u. q = eventpush_request event_name t u) \<or>
         (\<exists>t u. q = eventdatapush_request event_message 0 t u)) \<and>
        (\<forall>x. (''timestamp'', x) \<in> set (data q) \<longrightarrow> x = PyInt 0))"
proof -
  obtain x w' where e:
    "event lib baseurl accesstoken appid event_name event_message Omitted w = (x, w')"
    by (cases "event lib baseurl accesstoken appid event_name event_message Omitted w")
  from io_specD(2)[OF event_spec subset_refl e]
  obtain qs where qs: "sent w' = sent w @ qs"
    and all: "\<forall>q\<in>set qs. wire lib (set (replies w)) (baseurl @ ''api/v1/app/'' @ appid @ ''/'')
        accesstoken event_name event_message 0 q"
    by auto
  have "((\<exists>u. q = login_request accesstoken u) \<or>
         (\<exists>t u. q = eventpush_request event_name t u) \<or>
         (\<exists>t u. q = eventdatapush_request event_message 0 t u)) \<and>
        (\<forall>x. (''timestamp'', x) \<in> set (data q) \<longrightarrow> x = PyInt 0)"
    if "q \<in> set qs" for q
  proof -
    from all that have "wire lib (set (replies w)) (baseurl @ ''api/v1/app/'' @ appid @ ''/'')
        accesstoken event_name event_message 0 q"
      by blast
    then consider "q = login_request accesstoken ((baseurl @ ''api/v1/app/'' @ appid @ ''/'') @ ''login/'')"
      | t where "q = eventpush_request event_name t ((baseurl @ ''api/v1/app/'' @ appid @ ''/'') @ ''events/'')"
      | t v where "q = eventdatapush_request event_message 0 t
              ((baseurl @ ''api/v1/app/'' @ appid @ ''/'') @ ''events/'' @ py_str lib v @ ''/data/'')"
      unfolding wire_def by blast
    then show ?thesis
    proof cases
      case 1
      then show ?thesis by simp
    next
      case 2
      then show ?thesis by simp
    next
      case 3
      then show ?thesis by simp
    qed
  qed
  with qs show ?thesis
    by (simp add: e)
qed

theorem event_timestamp_default_witness:
  \<open>sent (snd (example_event
     [Reply \<lparr>status_code = 200, text' = ''{"token": "t1"}''\<rparr>,
      Reply \<lparr>status_code = 200, text' = ''{"id": 7}''\<rparr>,
      Reply \<lparr>status_code = 200, text' = ''''\<rparr>])) =
     [login_request ''42c59aad'' ''https://api.coscale.com/api/v1/app/00006e0e/login/'',
      eventpush_request ''Software updates'' (PyStr ''t1'')
        ''https://api.coscale.com/api/v1/app/00006e0e/events/'',
      \<lparr>url = ''https://api.coscale.com/api/v1/app/00006e0e/events/7/data/'',
       data = [(''message'', PyStr ''Updating to version 2.2''), (''timestamp'', PyInt 0),
               (''subject'', PyStr ''a'')],
       headers = [(''HTTPAuthorization'', PyStr ''t1'')], timeout = 1\<rparr>]
   \<and>
   (\<exists>qs. sent (snd (example_event
       [Reply \<lparr>status_code = 200, text' = ''{"token": "t1"}''\<rparr>,
        Reply \<lparr>status_code = 200, text' = ''{"id": 7}''\<rparr>,
        Reply \<lparr>status_code = 200, text' = ''''\<rparr>])) = qs \<and>
     (\<forall>q\<in>set qs.
        ((\<exists>u. q = login_request ''42c59aad'' u) \<or>
         (\<exists>t u. q = eventpush_request ''Software updates'' t u) \<or>
         (\<exists>t u. q = eventdatapush_request ''Updating to version 2.2'' 0 t u)) \<and>
        (\<forall>x. (''timestamp'', x) \<in> set (data q) \<longrightarrow> x = PyInt 0)))\<close>
proof (rule conjI)
  show \<open>sent (snd (example_event
     [Reply \<lparr>status_code = 200, text' = ''{"token": "t1"}''\<rparr>,
      Reply \<lparr>status_code = 200, text' = ''{"id": 7}''\<rparr>,
      Reply \<lparr>status_code = 200, text' = ''''\<rparr>])) =
     [login_request ''42c59aad'' ''https://api.coscale.com/api/v1/app/00006e0e/login/'',
      eventpush_request ''Software updates'' (PyStr ''t1'')
        ''https://api.coscale.com/api/v1/app/00006e0e/events/'',
      \<lparr>url = ''https://api.coscale.com/api/v1/app/00006e0e/events/7/data/'',
       data = [(''message'', PyStr ''Updating to version 2.2''), (''timestamp'', PyInt 0),
               (''subject'', PyStr ''a'')],
       headers = [(''HTTPAuthorization'', PyStr ''t1'')], timeout = 1\<rparr>]\<close>
    by (simp add: example_event_def example_lib_def event_def except_AttributeError_def run_defs str_int_def digits.simps)
  show \<open>\<exists>qs. sent (snd (example_event
       [Reply \<lparr>status_code = 200, text' = ''{"token": "t1"}''\<rparr>,
        Reply \<lparr>status_code = 200, text' = ''{"id": 7}''\<rparr>,
        Reply \<lparr>status_code = 200, text' = ''''\<rparr>])) = qs \<and>
     (\<forall>q\<in>set qs.
        ((\<exists>u. q = login_request ''42c59aad'' u) \<or>
         (\<exists>t u. q = eventpush_request ''Software updates'' t u) \<or>
         (\<exists>t u. q = eventdatapush_request ''Updating to version 2.2'' 0 t u)) \<and>
        (\<forall>x. (''timestamp'', x) \<in> set (data q) \<longrightarrow> x = PyInt 0))\<close>
    using event_timestamp_default
      [where lib = example_lib and baseurl = "''https://api.coscale.com/''"
         and accesstoken = "''42c59aad''" and appid = "''00006e0e''"
         and event_name = "''Software updates''" and event_message = "''Updating to version 2.2''"
         and w = \<open>\<lparr>replies =
           [Reply \<lparr>status_code = 200, text' = ''{"token": "t1"}''\<rparr>,
            Reply \<lparr>status_code = 200, text' = ''{"id": 7}''\<rparr>,
            Reply \<lparr>status_code = 200, text' = ''''\<rparr>], sent = []\<rparr>\<close>]
    by (simp only: example_event_def world.select_convs append_Nil)
qed

end
